theory Spec2Isabelle
  imports Main
begin

section \<open>Values and text\<close>

text \<open>
  The program is \<^verbatim>\<open>library_management.py\<close>: a class \<^verbatim>\<open>Book\<close> and a class
  \<^verbatim>\<open>Library\<close> that keeps a list of books, writes it to a JSON file after every
  change and reads it back when it is constructed.

  Python text is modelled as \<^typ>\<open>string\<close>; text outside ASCII stands for its UTF-8
  bytes. The fields of a book carry the types of the annotations of
  \<^verbatim>\<open>Book.__init__\<close>: \<^verbatim>\<open>int\<close> is \<^typ>\<open>int\<close>, \<^verbatim>\<open>str\<close> is \<^typ>\<open>string\<close>.
\<close>

text \<open>The values that \<^verbatim>\<open>str()\<close> is applied to in \<^verbatim>\<open>search_books\<close>: an attribute of a
  book or a query value, an \<^verbatim>\<open>int\<close> or a \<^verbatim>\<open>str\<close>.\<close>

datatype pyval = PInt int | PStr string

definition digit_char :: "nat \<Rightarrow> char" where
  "digit_char d = char_of (48 + d)"

fun digits :: "nat \<Rightarrow> string" where
  "digits n = (if n < 10 then [digit_char n] else digits (n div 10) @ [digit_char (n mod 10)])"

declare digits.simps [simp del]

text \<open>\<^verbatim>\<open>str(i)\<close> for an integer: decimal digits, with a minus sign below zero.\<close>

definition str_int :: "int \<Rightarrow> string" where
  "str_int i = (if i < 0 then CHR ''-'' # digits (nat (- i)) else digits (nat i))"

fun py_str :: "pyval \<Rightarrow> string" where
  "py_str (PInt i) = str_int i"
| "py_str (PStr s) = s"

text \<open>\<^verbatim>\<open>str.lower()\<close> follows the case tables of Unicode, which are no part of the
  program: the model takes the function as a parameter (\<open>lower\<close> of a \<open>runtime\<close>,
  below), and every statement about a search holds for each such function. On text
  that is all ASCII, \<^verbatim>\<open>str.lower()\<close> turns the letters A to Z into a to z and leaves
  the rest; \<open>ascii_lower\<close> is that, and \<open>ascii\<close> says that a text is all ASCII.\<close>

definition ascii_lower_char :: "char \<Rightarrow> char" where
  "ascii_lower_char c =
     (let n = of_char c :: nat in if 65 \<le> n \<and> n \<le> 90 then char_of (n + 32) else c)"

definition ascii_lower :: "string \<Rightarrow> string" where
  "ascii_lower s = map ascii_lower_char s"


section \<open>Book\<close>

record Book =
  book_id :: int
  title :: string
  author :: string
  year :: int
  status :: string

text \<open>The two status literals of the source, as the UTF-8 bytes of the Cyrillic text:
  "in stock" (the default of \<^verbatim>\<open>Book.__init__\<close>) and "issued".\<close>

definition status_available :: string where
  "status_available =
     [CHR 0xD0, CHR 0xB2, CHR 0x20, CHR 0xD0, CHR 0xBD, CHR 0xD0, CHR 0xB0, CHR 0xD0, CHR 0xBB,
      CHR 0xD0, CHR 0xB8, CHR 0xD1, CHR 0x87, CHR 0xD0, CHR 0xB8, CHR 0xD0, CHR 0xB8]"

definition status_issued :: string where
  "status_issued =
     [CHR 0xD0, CHR 0xB2, CHR 0xD1, CHR 0x8B, CHR 0xD0, CHR 0xB4, CHR 0xD0, CHR 0xB0, CHR 0xD0,
      CHR 0xBD, CHR 0xD0, CHR 0xB0]"

text \<open>What \<^verbatim>\<open>json.load\<close> returns and \<^verbatim>\<open>json.dump\<close> accepts. A dictionary is the list of
  its items in order, with distinct keys. Numbers with a fraction are left out.\<close>

datatype json =
  JNull
| JBool bool
| JInt int
| JStr string
| JList "json list"
| JDict "(string \<times> json) list"

text \<open>The exceptions that can leave \<^verbatim>\<open>Library.__init__\<close>. \<open>Unannotated\<close> is not an
  exception: it marks a stored value whose type is not the annotated one. Python would
  keep such a value in the book unchecked; the typed record cannot hold it, and the
  model stops there.\<close>

datatype error = KeyError string | TypeError | Unannotated string

definition bind_err :: "error + 'a \<Rightarrow> ('a \<Rightarrow> error + 'b) \<Rightarrow> error + 'b" where
  "bind_err r f = (case r of Inl e \<Rightarrow> Inl e | Inr x \<Rightarrow> f x)"

text \<open>\<^verbatim>\<open>Book.to_dict\<close>.\<close>

definition to_dict :: "Book \<Rightarrow> json" where
  "to_dict b =
     JDict [(''id'', JInt (book_id b)), (''title'', JStr (title b)), (''author'', JStr (author b)),
            (''year'', JInt (year b)), (''status'', JStr (status b))]"

text \<open>\<^verbatim>\<open>data[key]\<close> with a string key: a dictionary without the key raises KeyError; a
  list or a string cannot be indexed by a string and the other values cannot be
  indexed at all, which is a TypeError.\<close>

fun getitem :: "json \<Rightarrow> string \<Rightarrow> error + json" where
  "getitem (JDict kvs) k = (case map_of kvs k of None \<Rightarrow> Inl (KeyError k) | Some v \<Rightarrow> Inr v)"
| "getitem _ k = Inl TypeError"

fun as_int :: "string \<Rightarrow> json \<Rightarrow> error + int" where
  "as_int k (JInt i) = Inr i"
| "as_int k _ = Inl (Unannotated k)"

fun as_str :: "string \<Rightarrow> json \<Rightarrow> error + string" where
  "as_str k (JStr s) = Inr s"
| "as_str k _ = Inl (Unannotated k)"

text \<open>\<^verbatim>\<open>Book.from_dict\<close>: the five subscripts are evaluated from left to right, then
  the book is constructed.\<close>

definition from_dict :: "json \<Rightarrow> error + Book" where
  "from_dict data =
     bind_err (getitem data ''id'') (\<lambda>i.
     bind_err (getitem data ''title'') (\<lambda>t.
     bind_err (getitem data ''author'') (\<lambda>a.
     bind_err (getitem data ''year'') (\<lambda>y.
     bind_err (getitem data ''status'') (\<lambda>s.
     bind_err (as_int ''id'' i) (\<lambda>i'.
     bind_err (as_str ''title'' t) (\<lambda>t'.
     bind_err (as_str ''author'' a) (\<lambda>a'.
     bind_err (as_int ''year'' y) (\<lambda>y'.
     bind_err (as_str ''status'' s) (\<lambda>s'.
       Inr \<lparr>book_id = i', title = t', author = a', year = y', status = s'\<rparr>))))))))))"

section \<open>Library\<close>

text \<open>The content of a file as \<^verbatim>\<open>json.load\<close> sees it: text that it rejects with
  JSONDecodeError, or the value it returns. The file system maps a file name to the
  content of the file; a name without a file is \<open>None\<close>. Writing a value with
  \<^verbatim>\<open>json.dump\<close> leaves a file that \<^verbatim>\<open>json.load\<close> reads back as that value. Failures of
  the operating system other than a missing file (permissions, a full disk) are not
  modelled.\<close>

datatype content = Undecodable | Document json

type_synonym files = "string \<rightharpoonup> content"

record Library =
  filename :: string
  books :: "Book list"

text \<open>Iterating over a decoded value, as the comprehension in \<^verbatim>\<open>load_books\<close> does: a
  list gives its elements, a dictionary its keys, a string its characters; nothing else
  is iterable.\<close>

fun py_iter :: "json \<Rightarrow> error + json list" where
  "py_iter (JList xs) = Inr xs"
| "py_iter (JDict kvs) = Inr (map (\<lambda>kv. JStr (fst kv)) kvs)"
| "py_iter (JStr s) = Inr (map (\<lambda>c. JStr [c]) s)"
| "py_iter _ = Inl TypeError"

fun from_dicts :: "json list \<Rightarrow> error + Book list" where
  "from_dicts [] = Inr []"
| "from_dicts (d # ds) =
     bind_err (from_dict d) (\<lambda>b. bind_err (from_dicts ds) (\<lambda>bs. Inr (b # bs)))"

text \<open>\<^verbatim>\<open>Library.load_books\<close>: FileNotFoundError and JSONDecodeError are caught and leave
  an empty list; any other exception leaves the method.\<close>

definition load_books :: "files \<Rightarrow> Library \<Rightarrow> error + Library" where
  "load_books fs lib =
     (case fs (filename lib) of
        None \<Rightarrow> Inr (lib\<lparr>books := []\<rparr>)
      | Some Undecodable \<Rightarrow> Inr (lib\<lparr>books := []\<rparr>)
      | Some (Document data) \<Rightarrow>
          bind_err (py_iter data) (\<lambda>items.
          bind_err (from_dicts items) (\<lambda>bs. Inr (lib\<lparr>books := bs\<rparr>))))"

text \<open>\<^verbatim>\<open>Library.__init__\<close>.\<close>

definition Library_init :: "files \<Rightarrow> string \<Rightarrow> error + Library" where
  "Library_init fs name = load_books fs \<lparr>filename = name, books = []\<rparr>"

text \<open>\<^verbatim>\<open>Library.save_books\<close>: the file is overwritten with the list of dictionaries.\<close>

definition save_books :: "files \<Rightarrow> Library \<Rightarrow> files" where
  "save_books fs lib = fs(filename lib \<mapsto> Document (JList (map to_dict (books lib))))"

text \<open>What a method prints, one constructor for each \<^verbatim>\<open>print\<close> of the class, with the
  values its message shows:
  \<^item> \<open>Added i\<close>: the book with ID \<open>i\<close> was added;
  \<^item> \<open>Deleted i\<close>: the book with ID \<open>i\<close> was deleted;
  \<^item> \<open>Not_found i\<close>: the book with ID \<open>i\<close> was not found;
  \<^item> \<open>Status_updated i\<close>: the status of the book with ID \<open>i\<close> was updated;
  \<^item> \<open>Bad_status\<close>: the status is not one of the two literals;
  \<^item> \<open>No_results\<close>: no book matches the query;
  \<^item> \<open>Library_empty\<close>: the library is empty;
  \<^item> \<open>Book_line b\<close>: the line with the ID, title, author, year and status of \<open>b\<close>.\<close>

datatype message =
  Added int
| Deleted int
| Not_found int
| Status_updated int
| Bad_status
| No_results
| Library_empty
| Book_line Book

text \<open>What the caller of a method receives: the value returned, or the exception
  raised. No method of \<^verbatim>\<open>Library\<close> has a \<^verbatim>\<open>return\<close> with an expression, so a call
  that ends normally returns \<^verbatim>\<open>None\<close>; \<open>RBool\<close> and \<open>RBook\<close> are the values a
  caller might expect instead.\<close>

datatype retval = RNone | RBool bool | RBook Book | Raised error

text \<open>The effect of a call: the file system and the object after it, the messages
  printed, the value returned.\<close>

record outcome =
  files_after :: files
  self_after :: Library
  printed :: "message list"
  returned :: retval

text \<open>\<^verbatim>\<open>max(iterable, default=d)\<close> on integers.\<close>

fun py_max :: "int list \<Rightarrow> int \<Rightarrow> int" where
  "py_max [] d = d"
| "py_max (x # xs) d = fold max xs x"

text \<open>\<^verbatim>\<open>Library.add_book\<close>.\<close>

definition add_book :: "files \<Rightarrow> Library \<Rightarrow> string \<Rightarrow> string \<Rightarrow> int \<Rightarrow> outcome" where
  "add_book fs lib t a y =
     (let new_id = py_max (map book_id (books lib)) 0 + 1;
          new_book = \<lparr>book_id = new_id, title = t, author = a, year = y,
                      status = status_available\<rparr>;
          lib' = lib\<lparr>books := books lib @ [new_book]\<rparr>
      in \<lparr>files_after = save_books fs lib', self_after = lib',
          printed = [Added new_id], returned = RNone\<rparr>)"

text \<open>\<^verbatim>\<open>Library.delete_book\<close>: the loop stops at the first book with the ID, and
  \<^verbatim>\<open>list.remove\<close> takes out the first element equal to it.\<close>

definition delete_book :: "files \<Rightarrow> Library \<Rightarrow> int \<Rightarrow> outcome" where
  "delete_book fs lib i =
     (case find (\<lambda>b. book_id b = i) (books lib) of
        Some b \<Rightarrow>
          (let lib' = lib\<lparr>books := remove1 b (books lib)\<rparr>
           in \<lparr>files_after = save_books fs lib', self_after = lib',
               printed = [Deleted i], returned = RNone\<rparr>)
      | None \<Rightarrow>
          \<lparr>files_after = fs, self_after = lib, printed = [Not_found i], returned = RNone\<rparr>)"

text \<open>What the model takes from Python as given. \<open>lower s\<close> is \<^verbatim>\<open>s.lower()\<close>.
  \<open>class_text b key\<close> is the text of \<^verbatim>\<open>str(getattr(b, key, ""))\<close> for a class-level
  name \<open>key\<close> (see \<open>class_level\<close>): the text of what the class has under the name (a
  bound method, the class, the dictionary of the object, the docstring), which can
  hold addresses of the running process; and the empty text, of the default, for a
  name between double underscores that the class does not have. Nothing is assumed
  of the two functions here; a theorem that needs a fact about \<^verbatim>\<open>str.lower()\<close> states
  it as a hypothesis.\<close>

record runtime =
  lower :: "string \<Rightarrow> string"
  class_text :: "Book \<Rightarrow> string \<Rightarrow> string"

text \<open>The names that Python may find on the class of a book: the methods \<^verbatim>\<open>to_dict\<close>
  and \<^verbatim>\<open>from_dict\<close>, and the names between double underscores (\<^verbatim>\<open>__doc__\<close>,
  \<^verbatim>\<open>__module__\<close>, \<^verbatim>\<open>__class__\<close>, \<^verbatim>\<open>__dict__\<close> and the others that every object has).\<close>

definition class_level :: "string \<Rightarrow> bool" where
  "class_level key =
     (key = ''to_dict'' \<or> key = ''from_dict'' \<or>
      (take 2 key = ''__'' \<and> take 2 (rev key) = ''__''))"

text \<open>What \<^verbatim>\<open>getattr\<close> gives: a value (of an attribute of the book, or the default),
  or what the class has under the name.\<close>

datatype attr = Attr pyval | Class_attr string

text \<open>\<^verbatim>\<open>getattr(book, key, default)\<close>: the five attributes that \<^verbatim>\<open>Book.__init__\<close> sets
  are found on the object; a class-level name is looked up on the class
  (\<open>Class_attr\<close>, whose text is \<open>class_text\<close>); for any other name the default is
  returned. The program passes the empty string as the default.\<close>

definition getattr_book :: "Book \<Rightarrow> string \<Rightarrow> pyval \<Rightarrow> attr" where
  "getattr_book b key dflt =
     (if key = ''book_id'' then Attr (PInt (book_id b))
      else if key = ''title'' then Attr (PStr (title b))
      else if key = ''author'' then Attr (PStr (author b))
      else if key = ''year'' then Attr (PInt (year b))
      else if key = ''status'' then Attr (PStr (status b))
      else if class_level key then Class_attr key
      else Attr dflt)"

text \<open>\<^verbatim>\<open>str()\<close> of what \<^verbatim>\<open>getattr\<close> gave for the book \<open>b\<close>.\<close>

fun str_attr :: "runtime \<Rightarrow> Book \<Rightarrow> attr \<Rightarrow> string" where
  "str_attr py b (Attr v) = py_str v"
| "str_attr py b (Class_attr key) = class_text py b key"

text \<open>The condition of the comprehension in \<^verbatim>\<open>search_books\<close>.\<close>

definition matches :: "runtime \<Rightarrow> string \<Rightarrow> pyval \<Rightarrow> Book \<Rightarrow> bool" where
  "matches py key v b =
     (lower py (str_attr py b (getattr_book b key (PStr ''''))) = lower py (py_str v))"

text \<open>The loop of \<^verbatim>\<open>search_books\<close> over the keyword arguments, in the order given.\<close>

fun search_results :: "runtime \<Rightarrow> Book list \<Rightarrow> (string \<times> pyval) list \<Rightarrow> Book list" where
  "search_results py results [] = results"
| "search_results py results ((key, v) # kwargs) =
     search_results py (filter (matches py key v) results) kwargs"

text \<open>\<^verbatim>\<open>Library.display_books\<close>: without an argument, or with an empty list, the
  books of the library are shown.\<close>

definition display_books :: "files \<Rightarrow> Library \<Rightarrow> Book list option \<Rightarrow> outcome" where
  "display_books fs lib arg =
     (let bs = (case arg of None \<Rightarrow> books lib | Some xs \<Rightarrow> if xs = [] then books lib else xs)
      in \<lparr>files_after = fs, self_after = lib,
          printed = (if bs = [] then [Library_empty] else map Book_line bs),
          returned = RNone\<rparr>)"

text \<open>\<^verbatim>\<open>Library.search_books\<close>, declared as \<^verbatim>\<open>def search_books(self, **kwargs)\<close>. The
  keyword arguments are the items of a dictionary, in order. They are bound when the
  method is called: the name \<^verbatim>\<open>self\<close> is taken by the object already, so a keyword
  \<^verbatim>\<open>self\<close> raises TypeError before the body runs. Any other text is accepted as a
  name.\<close>

definition search_books :: "runtime \<Rightarrow> files \<Rightarrow> Library \<Rightarrow> (string \<times> pyval) list \<Rightarrow> outcome" where
  "search_books py fs lib kwargs =
     (if ''self'' \<in> set (map fst kwargs) then
        \<lparr>files_after = fs, self_after = lib, printed = [], returned = Raised TypeError\<rparr>
      else
        (let results = search_results py (books lib) kwargs
         in if results \<noteq> [] then (display_books fs lib (Some results))\<lparr>returned := RNone\<rparr>
            else \<lparr>files_after = fs, self_after = lib, printed = [No_results],
                  returned = RNone\<rparr>))"

text \<open>The assignment \<^verbatim>\<open>book.status = status\<close> on the first book with the ID.\<close>

fun assign_status :: "Book list \<Rightarrow> int \<Rightarrow> string \<Rightarrow> Book list" where
  "assign_status [] i s = []"
| "assign_status (b # bs) i s =
     (if book_id b = i then b\<lparr>status := s\<rparr> # bs else b # assign_status bs i s)"

text \<open>\<^verbatim>\<open>Library.update_status\<close>: the book is looked for first, the status is checked
  once it is found.\<close>

definition update_status :: "files \<Rightarrow> Library \<Rightarrow> int \<Rightarrow> string \<Rightarrow> outcome" where
  "update_status fs lib i s =
     (case find (\<lambda>b. book_id b = i) (books lib) of
        Some b \<Rightarrow>
          (if s \<in> set [status_available, status_issued] then
             (let lib' = lib\<lparr>books := assign_status (books lib) i s\<rparr>
              in \<lparr>files_after = save_books fs lib', self_after = lib',
                  printed = [Status_updated i], returned = RNone\<rparr>)
           else \<lparr>files_after = fs, self_after = lib, printed = [Bad_status], returned = RNone\<rparr>)
      | None \<Rightarrow>
          \<lparr>files_after = fs, self_after = lib, printed = [Not_found i], returned = RNone\<rparr>)"

section \<open>Sequences of operations\<close>

text \<open>The three calls that change a library, and a run of them from a file system and
  a library: each call takes over what the one before it has left.\<close>

datatype operation = Add string string int | Delete int | Update_status int string

fun apply_operation :: "operation \<Rightarrow> files \<times> Library \<Rightarrow> files \<times> Library" where
  "apply_operation (Add t a y) (fs, lib) =
     (let r = add_book fs lib t a y in (files_after r, self_after r))"
| "apply_operation (Delete i) (fs, lib) =
     (let r = delete_book fs lib i in (files_after r, self_after r))"
| "apply_operation (Update_status i s) (fs, lib) =
     (let r = update_status fs lib i s in (files_after r, self_after r))"

definition run :: "operation list \<Rightarrow> files \<times> Library \<Rightarrow> files \<times> Library" where
  "run ops st = fold apply_operation ops st"

definition ids :: "Library \<Rightarrow> int list" where
  "ids lib = map book_id (books lib)"

text \<open>The library that \<^verbatim>\<open>Library.__init__\<close> leaves when there is no file.\<close>

definition empty_library :: "string \<Rightarrow> Library" where
  "empty_library name = \<lparr>filename = name, books = []\<rparr>"

text \<open>A book and a library with this one book, for the examples.\<close>

definition war_and_peace :: Book where
  "war_and_peace =
     \<lparr>book_id = 1, title = ''War and Peace'', author = ''Tolstoy'', year = 1869,
      status = status_available\<rparr>"

definition one_book :: Library where
  "one_book = \<lparr>filename = ''library.json'', books = [war_and_peace]\<rparr>"




text \<open>A runtime for the examples, whose \<open>lower\<close> is the one of Python on ASCII text.\<close>

definition ascii_runtime :: runtime where
  "ascii_runtime = \<lparr>lower = ascii_lower, class_text = (\<lambda>b key. [])\<rparr>"


section \<open>Round trip through the file\<close>

lemma from_dict_to_dict: "from_dict (to_dict b) = Inr b"
  by (simp add: from_dict_def to_dict_def bind_err_def)

lemma from_dicts_to_dicts: "from_dicts (map to_dict bs) = Inr bs"
  by (induction bs) (simp_all add: from_dict_to_dict bind_err_def)

lemma load_saved:
  "filename lib' = filename lib \<Longrightarrow>
   load_books (save_books fs lib) lib' = Inr (lib'\<lparr>books := books lib\<rparr>)"
  by (simp add: load_books_def save_books_def bind_err_def from_dicts_to_dicts)

text \<open>
  Claim C1. After \<^verbatim>\<open>save_books\<close>, a fresh \<^verbatim>\<open>Library\<close> constructed on the same file
  holds the same books: the same ids, titles, authors, years and statuses, in the same
  order. Saving the unchanged library once more leaves the file as it is. The fields
  are well formed by their types.
\<close>

theorem save_load_roundtrip:
  "Library_init (save_books fs lib) (filename lib) = Inr lib \<and>
   save_books (save_books fs lib) lib = save_books fs lib"
  by (simp add: Library_init_def load_saved) (simp add: save_books_def)

section \<open>Loading\<close>

lemma load_missing:
  "fs name = None \<Longrightarrow> Library_init fs name = Inr (empty_library name)"
  by (simp add: Library_init_def load_books_def empty_library_def)

lemma load_undecodable:
  "fs name = Some Undecodable \<Longrightarrow> Library_init fs name = Inr (empty_library name)"
  by (simp add: Library_init_def load_books_def empty_library_def)

lemma add_to_empty: "printed (add_book fs (empty_library name) t a y) = [Added 1]"
  by (simp add: add_book_def empty_library_def Let_def)

text \<open>
  Claim C2. The claim is that constructing a \<^verbatim>\<open>Library\<close> never lets an error out and
  starts empty when the file is missing or is not the expected list of records. A
  missing file and a file that is not JSON do leave an empty library
  (\<open>load_missing\<close>, \<open>load_undecodable\<close>), and the first book added to it gets the
  id 1 (\<open>add_to_empty\<close>). A file that is JSON of another shape is not caught: for the
  file \<^verbatim>\<open>[{}]\<close>, a list with one empty object, the constructor ends with
  \<^verbatim>\<open>KeyError('id')\<close>.
\<close>

theorem load_wrong_shape_raises:
  "Library_init [''library.json'' \<mapsto> Document (JList [JDict []])] ''library.json''
     = Inl (KeyError ''id'')"
  by (simp add: Library_init_def load_books_def bind_err_def from_dict_def)

section \<open>Adding\<close>

lemma py_max_Max: "xs \<noteq> [] \<Longrightarrow> py_max xs d = Max (set xs)"
  by (cases xs) (simp_all add: Max.set_eq_fold [symmetric])

lemma py_max_ge: "x \<in> set xs \<Longrightarrow> x \<le> py_max xs d"
  using py_max_Max [of xs d] by (cases "xs = []") auto

lemma new_id_fresh: "py_max (map book_id bs) 0 + 1 \<notin> book_id ` set bs"
proof
  assume "py_max (map book_id bs) 0 + 1 \<in> book_id ` set bs"
  then have "py_max (map book_id bs) 0 + 1 \<in> set (map book_id bs)" by simp
  from py_max_ge [OF this, of 0] show False by simp
qed

lemma find_append_fresh:
  "i \<notin> book_id ` set bs \<Longrightarrow> book_id b = i \<Longrightarrow> find (\<lambda>x. book_id x = i) (bs @ [b]) = Some b"
  by (induction bs) auto

lemma remove1_append_fresh: "b \<notin> set bs \<Longrightarrow> remove1 b (bs @ [b]) = bs"
  by (induction bs) auto

lemma delete_new:
  assumes "i = py_max (map book_id (books lib)) 0 + 1" and "book_id b = i"
  shows "delete_book fs (lib\<lparr>books := books lib @ [b]\<rparr>) i =
    \<lparr>files_after = save_books fs lib, self_after = lib, printed = [Deleted i], returned = RNone\<rparr>"
proof -
  have fresh: "i \<notin> book_id ` set (books lib)" using assms(1) new_id_fresh by simp
  then have "b \<notin> set (books lib)" using assms(2) by auto
  then show ?thesis
    using find_append_fresh [OF fresh assms(2)]
    by (simp add: delete_book_def remove1_append_fresh save_books_def)
qed

text \<open>
  Claim C3, as amended. \<^verbatim>\<open>add_book\<close> gives the new book the id (greatest id of the
  library, or 0 when it is empty) + 1 and the status "in stock", appends it at the end,
  saves the library, prints the new id and returns \<^verbatim>\<open>None\<close>. Deleting the id that
  \<^verbatim>\<open>add_book\<close> has just assigned gives back the library as it was, and adding again
  assigns that same id.
\<close>

theorem add_book_spec:
  "add_book fs lib t a y =
     (let n = (if books lib = [] then 0 else Max (set (map book_id (books lib)))) + 1;
          lib' = lib\<lparr>books := books lib @
                   [\<lparr>book_id = n, title = t, author = a, year = y, status = status_available\<rparr>]\<rparr>
      in \<lparr>files_after = save_books fs lib', self_after = lib',
          printed = [Added n], returned = RNone\<rparr>) \<and>
   (let r1 = add_book fs lib t a y;
        n = book_id (last (books (self_after r1)));
        r2 = delete_book (files_after r1) (self_after r1) n;
        r3 = add_book (files_after r2) (self_after r2) t' a' y'
    in printed r2 = [Deleted n] \<and> self_after r2 = lib \<and> printed r3 = printed r1)"
proof -
  have n: "py_max (map book_id (books lib)) 0 =
    (if books lib = [] then 0 else Max (set (map book_id (books lib))))"
    using py_max_Max [of "map book_id (books lib)" 0] by simp
  have first: "add_book fs lib t a y =
     (let n = (if books lib = [] then 0 else Max (set (map book_id (books lib)))) + 1;
          lib' = lib\<lparr>books := books lib @
                   [\<lparr>book_id = n, title = t, author = a, year = y, status = status_available\<rparr>]\<rparr>
      in \<lparr>files_after = save_books fs lib', self_after = lib',
          printed = [Added n], returned = RNone\<rparr>)"
    unfolding add_book_def n by (simp add: Let_def)
  define i where "i = py_max (map book_id (books lib)) 0 + 1"
  define b where "b = \<lparr>book_id = i, title = t, author = a, year = y, status = status_available\<rparr>"
  have r1: "add_book fs lib t a y = \<lparr>files_after = save_books fs (lib\<lparr>books := books lib @ [b]\<rparr>),
     self_after = lib\<lparr>books := books lib @ [b]\<rparr>, printed = [Added i], returned = RNone\<rparr>"
    by (simp add: add_book_def i_def b_def Let_def)
  have bi: "book_id b = i" by (simp add: b_def)
  have second: "(let r1 = add_book fs lib t a y;
        n = book_id (last (books (self_after r1)));
        r2 = delete_book (files_after r1) (self_after r1) n;
        r3 = add_book (files_after r2) (self_after r2) t' a' y'
    in printed r2 = [Deleted n] \<and> self_after r2 = lib \<and> printed r3 = printed r1)"
    unfolding r1 Let_def
    by (simp add: bi delete_new [OF i_def bi]) (simp add: add_book_def i_def Let_def)
  from first second show ?thesis by blast
qed

text \<open>
  The claim C3 as it was stated fails twice. From the empty library, three books are
  added and the book 2 is deleted, which leaves the ids 1 and 3; deleting the highest
  id, 3, and adding again assigns 2, not 3. And \<^verbatim>\<open>add_book\<close> returns \<^verbatim>\<open>None\<close>, not the
  book it has created.
\<close>

theorem add_book_counterexample:
  "ids (snd (run [Add ''A'' ''X'' 1, Add ''B'' ''Y'' 2, Add ''C'' ''Z'' 3, Delete 2]
              (Map.empty, empty_library ''library.json''))) = [1, 3] \<and>
   ids (snd (run [Add ''A'' ''X'' 1, Add ''B'' ''Y'' 2, Add ''C'' ''Z'' 3, Delete 2, Delete 3,
                  Add ''D'' ''W'' 4]
              (Map.empty, empty_library ''library.json''))) = [1, 2] \<and>
   returned (add_book Map.empty (empty_library ''library.json'') ''D'' ''W'' 4) = RNone \<and>
   returned (add_book Map.empty (empty_library ''library.json'') ''D'' ''W'' 4) \<noteq>
     RBook \<lparr>book_id = 1, title = ''D'', author = ''W'', year = 4, status = status_available\<rparr>"
  by (simp add: run_def ids_def empty_library_def add_book_def delete_book_def Let_def)

section \<open>Updating the status and deleting\<close>

lemma find_None_ids: "find (\<lambda>b. book_id b = i) bs = None \<longleftrightarrow> i \<notin> set (map book_id bs)"
  by (induction bs) auto

lemma find_Some_ids: "i \<in> set (map book_id bs) \<Longrightarrow> \<exists>b. find (\<lambda>b. book_id b = i) bs = Some b"
  by (induction bs) auto

lemma find_Some_id: "find (\<lambda>b. book_id b = i) bs = Some b \<Longrightarrow> book_id b = i"
  by (induction bs) (auto split: if_splits)

lemma assign_status_nth:
  "i \<in> set (map book_id bs) \<Longrightarrow>
   assign_status bs i s =
     bs[length (takeWhile (\<lambda>b. book_id b \<noteq> i) bs) :=
          (bs ! length (takeWhile (\<lambda>b. book_id b \<noteq> i) bs))\<lparr>status := s\<rparr>]"
  by (induction bs) auto

lemma remove1_first:
  "find (\<lambda>b. book_id b = i) bs = Some b \<Longrightarrow>
   remove1 b bs = take (length (takeWhile (\<lambda>b. book_id b \<noteq> i) bs)) bs @
                  drop (Suc (length (takeWhile (\<lambda>b. book_id b \<noteq> i) bs))) bs"
  by (induction bs) (auto split: if_splits dest: find_Some_id)

text \<open>
  Claim C4, as amended. \<^verbatim>\<open>update_status\<close> looks for the book first. When no book has
  the id, it prints that the book was not found, whatever the new status is. When a book
  has the id and the new status is not one of the two literals, it prints that the
  status is wrong. In both cases the library and the file are as before. Otherwise the
  first book with the id, at the position \<open>k\<close>, gets the new status, the library is
  saved and the update is printed. The call returns \<^verbatim>\<open>None\<close> in every case.
\<close>

theorem update_status_spec:
  "update_status fs lib i s =
     (if i \<notin> set (ids lib) then
        \<lparr>files_after = fs, self_after = lib, printed = [Not_found i], returned = RNone\<rparr>
      else if s \<noteq> status_available \<and> s \<noteq> status_issued then
        \<lparr>files_after = fs, self_after = lib, printed = [Bad_status], returned = RNone\<rparr>
      else
        (let k = length (takeWhile (\<lambda>b. book_id b \<noteq> i) (books lib));
             lib' = lib\<lparr>books := (books lib)[k := (books lib ! k)\<lparr>status := s\<rparr>]\<rparr>
         in \<lparr>files_after = save_books fs lib', self_after = lib',
             printed = [Status_updated i], returned = RNone\<rparr>))"
proof (cases "i \<in> set (ids lib)")
  case False
  then have "find (\<lambda>b. book_id b = i) (books lib) = None"
    by (simp add: find_None_ids ids_def)
  with False show ?thesis by (simp add: update_status_def)
next
  case True
  then obtain b where "find (\<lambda>b. book_id b = i) (books lib) = Some b"
    using find_Some_ids [of i "books lib"] by (auto simp: ids_def)
  moreover from True have "assign_status (books lib) i s =
     (books lib)[length (takeWhile (\<lambda>b. book_id b \<noteq> i) (books lib)) :=
          ((books lib) ! length (takeWhile (\<lambda>b. book_id b \<noteq> i) (books lib)))\<lparr>status := s\<rparr>]"
    by (simp add: assign_status_nth ids_def)
  ultimately show ?thesis using True by (simp add: update_status_def Let_def)
qed

text \<open>
  The claim C4 as it was stated fails where the status is wrong and the id is absent:
  the library holds only the book 1, the status \<^verbatim>\<open>lost\<close> is neither literal, and
  \<^verbatim>\<open>update_status(7, "lost")\<close> prints that the book was not found, not that the status
  is wrong.
\<close>

theorem update_status_counterexample:
  "''lost'' \<noteq> status_available \<and> ''lost'' \<noteq> status_issued \<and>
   update_status Map.empty one_book 7 ''lost'' =
     \<lparr>files_after = Map.empty, self_after = one_book, printed = [Not_found 7], returned = RNone\<rparr> \<and>
   printed (update_status Map.empty one_book 7 ''lost'') \<noteq> [Bad_status]"
  by (simp add: update_status_def one_book_def war_and_peace_def status_available_def
      status_issued_def)

text \<open>
  Claim C5, as amended. \<^verbatim>\<open>delete_book\<close> looks for the first book with the id, at the
  position \<open>k\<close>. When there is one, it takes that book out and leaves the others in
  their order, saves the library and prints that the book was deleted. When there is
  none, the library and the file are as before, nothing is saved and it prints that the
  book was not found. The call returns \<^verbatim>\<open>None\<close> in both cases.
\<close>

theorem delete_book_spec:
  "delete_book fs lib i =
     (if i \<in> set (ids lib) then
        (let k = length (takeWhile (\<lambda>b. book_id b \<noteq> i) (books lib));
             lib' = lib\<lparr>books := take k (books lib) @ drop (Suc k) (books lib)\<rparr>
         in \<lparr>files_after = save_books fs lib', self_after = lib',
             printed = [Deleted i], returned = RNone\<rparr>)
      else \<lparr>files_after = fs, self_after = lib, printed = [Not_found i], returned = RNone\<rparr>)"
proof (cases "i \<in> set (ids lib)")
  case False
  then have "find (\<lambda>b. book_id b = i) (books lib) = None"
    by (simp add: find_None_ids ids_def)
  with False show ?thesis by (simp add: delete_book_def)
next
  case True
  then obtain b where b: "find (\<lambda>b. book_id b = i) (books lib) = Some b"
    using find_Some_ids [of i "books lib"] by (auto simp: ids_def)
  show ?thesis using True b remove1_first [OF b] by (simp add: delete_book_def Let_def)
qed

text \<open>
  The claim C5 as it was stated fails on the value returned: deleting the book 1 from
  the library that holds it succeeds and returns \<^verbatim>\<open>None\<close>, not \<^verbatim>\<open>True\<close>; deleting the
  absent book 2 returns \<^verbatim>\<open>None\<close>, not \<^verbatim>\<open>False\<close>.
\<close>

theorem delete_book_counterexample:
  "delete_book Map.empty one_book 1 =
     \<lparr>files_after = [''library.json'' \<mapsto> Document (JList [])],
      self_after = empty_library ''library.json'', printed = [Deleted 1], returned = RNone\<rparr> \<and>
   returned (delete_book Map.empty one_book 1) \<noteq> RBool True \<and>
   returned (delete_book Map.empty one_book 2) = RNone \<and>
   returned (delete_book Map.empty one_book 2) \<noteq> RBool False"
  by (simp add: delete_book_def one_book_def war_and_peace_def empty_library_def save_books_def)

section \<open>Searching\<close>

lemma getattr_unknown:
  "key \<notin> {''book_id'', ''title'', ''author'', ''year'', ''status''} \<Longrightarrow> \<not> class_level key \<Longrightarrow>
   getattr_book b key d = Attr d"
  by (simp add: getattr_book_def)

lemma matches_unknown:
  assumes "key \<notin> {''book_id'', ''title'', ''author'', ''year'', ''status''}"
    and "\<not> class_level key"
    and "\<And>s. (lower py s = []) = (s = [])"
  shows "matches py key v b \<longleftrightarrow> py_str v = []"
proof -
  have "lower py [] = []" using assms(3) by simp
  then have "matches py key v b \<longleftrightarrow> [] = lower py (py_str v)"
    by (simp add: matches_def getattr_unknown [OF assms(1,2)])
  also have "\<dots> \<longleftrightarrow> py_str v = []" using assms(3) [of "py_str v"] by auto
  finally show ?thesis .
qed

lemma search_books_outcome:
  "search_books py fs lib kwargs =
     (if ''self'' \<in> set (map fst kwargs) then
        \<lparr>files_after = fs, self_after = lib, printed = [], returned = Raised TypeError\<rparr>
      else
        \<lparr>files_after = fs, self_after = lib,
         printed = (if search_results py (books lib) kwargs = [] then [No_results]
                    else map Book_line (search_results py (books lib) kwargs)),
         returned = RNone\<rparr>)"
  by (simp add: search_books_def display_books_def Let_def)














lemma ascii_runtime_Nil: "(lower ascii_runtime s = []) = (s = [])"
  by (simp add: ascii_runtime_def ascii_lower_def)

text \<open>
  Claim C6, as amended. When the field name is none of the five attributes of a book
  (\<^verbatim>\<open>book_id\<close>, \<^verbatim>\<open>title\<close>, \<^verbatim>\<open>author\<close>, \<^verbatim>\<open>year\<close>, \<^verbatim>\<open>status\<close>), no name that Python
  may find on the class and not \<^verbatim>\<open>self\<close>, and the text of the query value is not
  empty, \<^verbatim>\<open>search_books\<close> selects no book: it prints that nothing was found,
  changes nothing and ends normally (it returns \<^verbatim>\<open>None\<close>). The hypothesis on
  \<open>lower\<close> is a fact of \<^verbatim>\<open>str.lower()\<close>: it gives the empty text for the empty
  text only.
\<close>

theorem search_unknown_field:
  assumes "key \<notin> {''book_id'', ''title'', ''author'', ''year'', ''status''}"
    and "\<not> class_level key"
    and "key \<noteq> ''self''"
    and "py_str v \<noteq> []"
    and "\<And>s. (lower py s = []) = (s = [])"
  shows "search_results py (books lib) [(key, v)] = [] \<and>
         search_books py fs lib [(key, v)] =
           \<lparr>files_after = fs, self_after = lib, printed = [No_results], returned = RNone\<rparr>"
proof -
  have "search_results py (books lib) [(key, v)] = []"
    using assms(4) by (simp add: matches_unknown [OF assms(1,2,5)])
  then show ?thesis using assms(3) by (simp add: search_books_outcome)
qed

text \<open>The theorem at the field \<^verbatim>\<open>genre\<close> and the query \<^verbatim>\<open>novel\<close>, on the library with
  one book.\<close>

theorem search_unknown_field_witness:
  "search_results ascii_runtime (books one_book) [(''genre'', PStr ''novel'')] = [] \<and>
   search_books ascii_runtime Map.empty one_book [(''genre'', PStr ''novel'')] =
     \<lparr>files_after = Map.empty, self_after = one_book, printed = [No_results], returned = RNone\<rparr>"
proof -
  have 1: "''genre'' \<notin> {''book_id'', ''title'', ''author'', ''year'', ''status''}" by simp
  have 2: "\<not> class_level ''genre''" by (simp add: class_level_def)
  have 3: "''genre'' \<noteq> ''self''" by simp
  have 4: "py_str (PStr ''novel'') \<noteq> []" by simp
  show ?thesis by (rule search_unknown_field [OF 1 2 3 4 ascii_runtime_Nil])
qed

text \<open>
  The claim C6 as it was stated fails on the library with one book. The field
  \<^verbatim>\<open>genre\<close> is no attribute, so \<^verbatim>\<open>getattr\<close> gives the default, the empty string, and
  the empty query matches it: the book is selected and shown. The field \<^verbatim>\<open>book_id\<close>
  is not among title, author, year and status, and the query 1 selects the book 1.
  The field \<^verbatim>\<open>self\<close> cannot be passed as a keyword: the call raises TypeError.
\<close>

theorem search_unknown_field_counterexample:
  "search_results ascii_runtime (books one_book) [(''genre'', PStr '''')] = [war_and_peace] \<and>
   printed (search_books ascii_runtime Map.empty one_book [(''genre'', PStr '''')]) =
     [Book_line war_and_peace] \<and>
   search_results ascii_runtime (books one_book) [(''book_id'', PInt 1)] = [war_and_peace] \<and>
   printed (search_books ascii_runtime Map.empty one_book [(''book_id'', PInt 1)]) =
     [Book_line war_and_peace] \<and>
   search_books ascii_runtime Map.empty one_book [(''self'', PStr ''novel'')] =
     \<lparr>files_after = Map.empty, self_after = one_book, printed = [], returned = Raised TypeError\<rparr>"
  by (simp add: search_books_outcome one_book_def matches_def getattr_book_def class_level_def
      war_and_peace_def)






section \<open>The ids of a library\<close>

lemma ids_add_book:
  "ids (self_after (add_book fs lib t a y)) = ids lib @ [py_max (ids lib) 0 + 1]"
  by (simp add: add_book_def ids_def Let_def)

lemma ids_delete_book:
  "ids (self_after (delete_book fs lib i)) =
     (case find (\<lambda>b. book_id b = i) (books lib) of
        None \<Rightarrow> ids lib | Some b \<Rightarrow> map book_id (remove1 b (books lib)))"
  by (simp add: delete_book_def ids_def Let_def split: option.split)

lemma map_assign_status: "map book_id (assign_status bs i s) = map book_id bs"
  by (induction bs) auto

lemma ids_update_status: "ids (self_after (update_status fs lib i s)) = ids lib"
  by (simp add: update_status_def ids_def Let_def map_assign_status split: option.split)

lemma distinct_map_remove1: "distinct (map f xs) \<Longrightarrow> distinct (map f (remove1 x xs))"
proof (induction xs)
  case Nil
  show ?case by simp
next
  case (Cons a xs)
  have "set (remove1 x xs) \<subseteq> set xs" by (rule set_remove1_subset)
  with Cons show ?case by auto
qed

lemma distinct_add: "distinct (ids lib) \<Longrightarrow> distinct (ids (self_after (add_book fs lib t a y)))"
  using new_id_fresh [of "books lib"] by (simp add: ids_add_book) (simp add: ids_def)

lemma distinct_delete:
  "distinct (ids lib) \<Longrightarrow> distinct (ids (self_after (delete_book fs lib i)))"
  unfolding ids_delete_book by (simp add: ids_def distinct_map_remove1 split: option.split)

lemma distinct_step:
  "distinct (ids lib) \<Longrightarrow> distinct (ids (snd (apply_operation op (fs, lib))))"
proof (cases op)
  case (Add t a y)
  assume "distinct (ids lib)"
  then show ?thesis using Add by (simp add: Let_def distinct_add)
next
  case (Delete i)
  assume "distinct (ids lib)"
  then show ?thesis using Delete by (simp add: Let_def distinct_delete)
next
  case (Update_status i s)
  assume "distinct (ids lib)"
  then show ?thesis using Update_status by (simp add: Let_def ids_update_status)
qed

lemma distinct_run:
  "distinct (ids (snd st)) \<Longrightarrow> distinct (ids (snd (run ops st)))"
proof (induction ops arbitrary: st)
  case Nil
  then show ?case by (simp add: run_def)
next
  case (Cons op ops)
  obtain fs lib where st: "st = (fs, lib)" by (cases st)
  from Cons.prems have "distinct (ids (snd (apply_operation op st)))"
    unfolding st by (simp add: distinct_step)
  from Cons.IH [OF this] show ?case by (simp add: run_def)
qed

lemma py_max_upto: "py_max [1..int k] 0 = int k"
proof (cases k)
  case 0
  then show ?thesis by simp
next
  case (Suc n)
  then have "[1..int k] \<noteq> []" by simp
  then have "py_max [1..int k] 0 = Max (set [1..int k])" by (rule py_max_Max)
  also have "\<dots> = int k" using Suc by (simp add: Max_eq_iff)
  finally show ?thesis .
qed

lemma run_adds:
  "ids lib = [1..int k] \<Longrightarrow>
   ids (snd (run (map (\<lambda>(t, a, y). Add t a y) new) (fs, lib))) = [1..int (k + length new)]"
proof (induction new arbitrary: fs lib k)
  case Nil
  then show ?case by (simp add: run_def)
next
  case (Cons x new)
  obtain t a y where x: "x = (t, a, y)" by (cases x)
  let ?r = "add_book fs lib t a y"
  have "ids (self_after ?r) = [1..int k] @ [int k + 1]"
    by (simp add: ids_add_book Cons.prems py_max_upto)
  also have "\<dots> = [1..int (Suc k)]"
    using upto_rec2 [of 1 "int k + 1"] by (simp add: add.commute)
  finally have "ids (self_after ?r) = [1..int (Suc k)]" .
  from Cons.IH [OF this, of "files_after ?r"] show ?case
    by (simp add: run_def x Let_def)
qed

text \<open>
  Claim C8. The ids of the books of a library are pairwise distinct after every run of
  \<^verbatim>\<open>add_book\<close>, \<^verbatim>\<open>delete_book\<close> and \<^verbatim>\<open>update_status\<close> calls from the empty library, and
  each of the three calls keeps them distinct when they are. In every library
  \<^verbatim>\<open>add_book\<close> leaves the ids as they are and appends (greatest id, or 0 when there is
  none) + 1. The ids that a run of adds alone assigns from the empty library are
  1, 2, ... up to the number of adds.
\<close>

theorem ids_distinct:
  "distinct (ids (snd (run ops (fs, empty_library name)))) \<and>
   (distinct (ids lib) \<longrightarrow> distinct (ids (snd (apply_operation op (fs, lib))))) \<and>
   ids (self_after (add_book fs lib t a y)) =
     ids lib @ [(if ids lib = [] then 0 else Max (set (ids lib))) + 1] \<and>
   ids (snd (run (map (\<lambda>(t, a, y). Add t a y) new) (fs, empty_library name))) =
     [1..int (length new)]"
proof -
  have 1: "distinct (ids (snd (run ops (fs, empty_library name))))"
    by (rule distinct_run) (simp add: ids_def empty_library_def)
  have 3: "ids (self_after (add_book fs lib t a y)) =
     ids lib @ [(if ids lib = [] then 0 else Max (set (ids lib))) + 1]"
    using py_max_Max [of "ids lib" 0] by (simp add: ids_add_book)
  have "ids (empty_library name) = [1..int 0]" by (simp add: ids_def empty_library_def)
  from run_adds [OF this, of new fs]
  have 4: "ids (snd (run (map (\<lambda>(t, a, y). Add t a y) new) (fs, empty_library name))) =
     [1..int (length new)]" by simp
  from 1 3 4 distinct_step [of lib op fs] show ?thesis by blast
qed

text \<open>The theorem on the library with the book 1, to which a second book is added:
  the ids are distinct before, and they are 1 and 2 after.\<close>

theorem ids_distinct_witness:
  "distinct (ids one_book) \<and>
   distinct (ids (snd (apply_operation (Add ''Anna Karenina'' ''Tolstoy'' 1878) (Map.empty, one_book)))) \<and>
   ids (snd (apply_operation (Add ''Anna Karenina'' ''Tolstoy'' 1878) (Map.empty, one_book))) = [1, 2]"
proof -
  have d: "distinct (ids one_book)" by (simp add: ids_def one_book_def)
  have "ids (snd (apply_operation (Add ''Anna Karenina'' ''Tolstoy'' 1878) (Map.empty, one_book))) = [1, 2]"
    by (simp add: ids_def one_book_def war_and_peace_def add_book_def Let_def)
  with d ids_distinct [where lib = one_book and op = "Add ''Anna Karenina'' ''Tolstoy'' 1878"
      and fs = Map.empty]
  show ?thesis by simp
qed

section \<open>What is written to the file\<close>

lemma delete_book_files:
  "files_after (delete_book fs lib i) =
     (if i \<in> set (ids lib) then save_books fs (self_after (delete_book fs lib i)) else fs)"
  using find_None_ids [of i "books lib"]
  by (auto simp add: delete_book_def ids_def Let_def split: option.split)

lemma update_status_files:
  "files_after (update_status fs lib i s) =
     (if i \<in> set (ids lib) \<and> (s = status_available \<or> s = status_issued)
      then save_books fs (self_after (update_status fs lib i s)) else fs)"
  using find_None_ids [of i "books lib"]
  by (auto simp add: update_status_def ids_def Let_def split: option.split)

text \<open>
  Claim C9. \<^verbatim>\<open>search_books\<close> and \<^verbatim>\<open>display_books\<close> leave the books of the library and
  every file as they are. \<^verbatim>\<open>add_book\<close> always saves the library it leaves;
  \<^verbatim>\<open>delete_book\<close> saves it when a book has the id and leaves the files alone otherwise;
  \<^verbatim>\<open>update_status\<close> saves it when a book has the id and the status is one of the two
  literals, and leaves the files alone otherwise.
\<close>

theorem read_only:
  "files_after (search_books py fs lib kwargs) = fs \<and>
   self_after (search_books py fs lib kwargs) = lib \<and>
   files_after (display_books fs lib arg) = fs \<and>
   self_after (display_books fs lib arg) = lib \<and>
   files_after (add_book fs lib t a y) = save_books fs (self_after (add_book fs lib t a y)) \<and>
   files_after (delete_book fs lib i) =
     (if i \<in> set (ids lib) then save_books fs (self_after (delete_book fs lib i)) else fs) \<and>
   files_after (update_status fs lib i s) =
     (if i \<in> set (ids lib) \<and> (s = status_available \<or> s = status_issued)
      then save_books fs (self_after (update_status fs lib i s)) else fs)"
  using delete_book_files [of fs lib i] update_status_files [of fs lib i s]
  by (simp add: search_books_def display_books_def add_book_def Let_def)

end
